theory Spec2Isabelle
  imports Complex_Main "HOL-Library.Word" "HOL-Library.Log_Nat"
begin

unbundle bit_operations_syntax

section \<open>termios types and constants (sys/termios.h)\<close>

type_synonym cc_t = "8 word"
type_synonym speed_t = "64 word"
type_synonym tcflag_t = "64 word"

definition kCS5 :: tcflag_t where "kCS5 = 0x00000000"
definition kCS6 :: tcflag_t where "kCS6 = 0x00000100"
definition kCS7 :: tcflag_t where "kCS7 = 0x00000200"
definition kCS8 :: tcflag_t where "kCS8 = 0x00000300"
definition kCLOCAL :: tcflag_t where "kCLOCAL = 0x00008000"
definition kCREAD :: tcflag_t where "kCREAD = 0x00000800"
definition kCSTOPB :: tcflag_t where "kCSTOPB = 0x00000400"
definition kIGNPAR :: tcflag_t where "kIGNPAR = 0x00000004"
definition kPARENB :: tcflag_t where "kPARENB = 0x00001000"
definition kPARODD :: tcflag_t where "kPARODD = 0x00002000"

definition kNCCS :: nat where "kNCCS = 20"

definition kVMIN :: tcflag_t where "kVMIN = 16"
definition kVTIME :: tcflag_t where "kVTIME = 17"

text \<open>
  The character-size patterns share the two-bit field \<open>0x300\<close>; \<open>kCS5\<close> is the
  all-zero pattern of that field. A pattern is present in a flag word when the field,
  cut out by the union of the four patterns, holds exactly that pattern.
\<close>

definition csize_field :: "tcflag_t \<Rightarrow> tcflag_t" where
  "csize_field w = w AND (kCS5 OR kCS6 OR kCS7 OR kCS8)"

definition has_csize :: "tcflag_t \<Rightarrow> tcflag_t \<Rightarrow> bool" where
  "has_csize pattern w = (csize_field w = pattern)"

definition flag_set :: "tcflag_t \<Rightarrow> tcflag_t \<Rightarrow> bool" where
  "flag_set flag w = (w AND flag = flag)"

definition flag_clear :: "tcflag_t \<Rightarrow> tcflag_t \<Rightarrow> bool" where
  "flag_clear flag w = (w AND flag = 0)"

record termios =
  c_iflag :: tcflag_t
  c_oflag :: tcflag_t
  c_cflag :: tcflag_t
  c_lflag :: tcflag_t
  c_cc :: "cc_t list"
  c_ispeed :: speed_t
  c_ospeed :: speed_t

text \<open>The zero value that \<open>var result termios\<close> starts from.\<close>

definition zero_termios :: termios where
  "zero_termios = \<lparr>c_iflag = 0, c_oflag = 0, c_cflag = 0, c_lflag = 0,
     c_cc = replicate kNCCS 0, c_ispeed = 0, c_ospeed = 0\<rparr>"

section \<open>Options and errors\<close>

text \<open>
  Modelled from the spec: the parity enumeration is declared outside
  \<open>open_darwin.go\<close>. The spec lists it as the enumeration NONE, ODD, EVEN; in Go that
  is an integer type with three named constants, which the \<open>switch\<close> of
  \<open>convertOptions\<close> requires to be pairwise distinct. They are numbered here in the
  order of the enumeration.
\<close>

type_synonym ParityMode = int

definition PARITY_NONE :: ParityMode where "PARITY_NONE = 0"
definition PARITY_ODD :: ParityMode where "PARITY_ODD = 1"
definition PARITY_EVEN :: ParityMode where "PARITY_EVEN = 2"

text \<open>
  Modelled from the spec: the options structure is declared outside
  \<open>open_darwin.go\<close>. The spec gives \<open>BaudRate\<close>, \<open>DataBits\<close> and \<open>StopBits\<close> as
  integers and \<open>MinimumReadSize\<close> and \<open>InterCharacterTimeout\<close> as non-negative
  integers (Go's \<open>uint\<close>).
\<close>

record OpenOptions =
  PortName :: string
  BaudRate :: int
  DataBits :: int
  StopBits :: int
  ParityMode :: ParityMode
  InterCharacterTimeout :: nat
  MinimumReadSize :: nat

text \<open>
  \<open>errors_New\<close> is \<open>errors.New\<close> with its message, \<open>SyscallError\<close> is what
  \<open>os.NewSyscallError\<close> builds from a call name and a nonzero errno, and \<open>PathError\<close>
  stands for the error of a failed \<open>os.OpenFile\<close>.
\<close>

datatype error =
    errors_New string
  | SyscallError string nat
  | PathError string nat

section \<open>float64 arithmetic\<close>

text \<open>
  \<open>vtime\<close> is computed in \<open>float64\<close>. A finite \<open>float64\<close> is modelled by the rational
  it denotes, and every arithmetic operation rounds its exact result to the nearest
  number with a 53-bit significand, ties to even (\<open>fl\<close>). \<open>binade x\<close> is the exponent
  \<open>e\<close> with \<open>2^e \<le> x < 2^(e+1)\<close>, so the spacing of the representable numbers around
  \<open>x\<close> is \<open>2^(e-52)\<close>. The exponent range is not bounded: the magnitudes that arise from
  a 64-bit \<open>InterCharacterTimeout\<close> lie between \<open>2^-7\<close> and \<open>2^71\<close>, far inside the range
  of normal numbers.
\<close>

type_synonym float64 = rat

definition rne :: "rat \<Rightarrow> int" where
  "rne x = (let n = \<lfloor>x\<rfloor>; r = x - of_int n in
     if r < 1/2 then n else if 1/2 < r then n + 1 else if even n then n else n + 1)"

definition binade :: "rat \<Rightarrow> int" where
  "binade x = (if 1 \<le> x then bitlen \<lfloor>x\<rfloor> - 1 else - bitlen (\<lceil>1 / x\<rceil> - 1))"

definition fl :: "rat \<Rightarrow> float64" where
  "fl x = (if x = 0 then 0 else
     let q = 2 powi (binade \<bar>x\<bar> - 52) in sgn x * of_int (rne (\<bar>x\<bar> / q)) * q)"

definition float64_of_uint :: "nat \<Rightarrow> float64" where
  "float64_of_uint n = fl (of_nat n)"

definition fadd :: "float64 \<Rightarrow> float64 \<Rightarrow> float64" where
  "fadd x y = fl (x + y)"

definition fmul :: "float64 \<Rightarrow> float64 \<Rightarrow> float64" where
  "fmul x y = fl (x * y)"

definition fdiv :: "float64 \<Rightarrow> float64 \<Rightarrow> float64" where
  "fdiv x y = fl (x / y)"

text \<open>\<open>math.Floor\<close>: the floor of a representable number is representable.\<close>

definition math_Floor :: "float64 \<Rightarrow> float64" where
  "math_Floor f = of_int \<lfloor>f\<rfloor>"

text \<open>
  The conversion \<open>uint(f)\<close> of a non-negative \<open>float64\<close> discards the fraction. With
  \<open>uint\<close> modelled by \<open>nat\<close> the result always fits; on a 64-bit \<open>uint\<close> the Go
  specification leaves the result to the implementation once \<open>f\<close> reaches \<open>2^64\<close>,
  which takes an \<open>InterCharacterTimeout\<close> within 1024 of \<open>2^64\<close>.
\<close>

definition uint_of_float64 :: "float64 \<Rightarrow> nat" where
  "uint_of_float64 f = nat \<lfloor>f\<rfloor>"

section \<open>convertOptions\<close>

definition round_f64 :: "float64 \<Rightarrow> float64" where
  "round_f64 f = math_Floor (fadd f (1/2))"

definition vtime_of :: "OpenOptions \<Rightarrow> nat" where
  "vtime_of options =
     uint_of_float64
       (fmul (round_f64 (fdiv (float64_of_uint (InterCharacterTimeout options)) 100)) 100)"

text \<open>
  Each block of \<open>convertOptions\<close> is one step on \<open>result\<close>; a step either returns an
  error, which ends the conversion, or the updated structure.
\<close>

definition set_vmin_vtime :: "OpenOptions \<Rightarrow> termios \<Rightarrow> error + termios" where
  "set_vmin_vtime options result =
     (let vtime = vtime_of options;
          vmin = MinimumReadSize options
      in if vmin = 0 \<and> vtime < 100 then
           Inl (errors_New ''Invalid values for InterCharacterTimeout and MinimumReadSize.'')
         else if vtime > 25500 then
           Inl (errors_New ''Invalid value for InterCharacterTimeout.'')
         else
           let result = result\<lparr>c_cc := (c_cc result)[unat kVTIME := of_nat (vtime div 100)]\<rparr>;
               result = result\<lparr>c_cc := (c_cc result)[unat kVMIN := of_nat vmin]\<rparr>
           in Inr result)"

definition baud_rates :: "int list" where
  "baud_rates = [50, 75, 110, 134, 150, 200, 300, 600, 1200, 1800, 2400, 4800, 7200,
     9600, 14400, 19200, 28800, 38400, 57600, 76800, 115200, 230400]"

definition set_baud_rate :: "OpenOptions \<Rightarrow> termios \<Rightarrow> error + termios" where
  "set_baud_rate options result =
     (if BaudRate options \<in> set baud_rates then
        Inr (result\<lparr>c_ispeed := of_int (BaudRate options),
                    c_ospeed := of_int (BaudRate options)\<rparr>)
      else Inl (errors_New ''Invalid setting for BaudRate.''))"

definition set_data_bits :: "OpenOptions \<Rightarrow> termios \<Rightarrow> error + termios" where
  "set_data_bits options result =
     (if DataBits options = 5 then Inr (result\<lparr>c_cflag := c_cflag result OR kCS5\<rparr>)
      else if DataBits options = 6 then Inr (result\<lparr>c_cflag := c_cflag result OR kCS6\<rparr>)
      else if DataBits options = 7 then Inr (result\<lparr>c_cflag := c_cflag result OR kCS7\<rparr>)
      else if DataBits options = 8 then Inr (result\<lparr>c_cflag := c_cflag result OR kCS8\<rparr>)
      else Inl (errors_New ''Invalid setting for DataBits.''))"

definition set_stop_bits :: "OpenOptions \<Rightarrow> termios \<Rightarrow> error + termios" where
  "set_stop_bits options result =
     (if StopBits options = 1 then Inr result
      else if StopBits options = 2 then Inr (result\<lparr>c_cflag := c_cflag result OR kCSTOPB\<rparr>)
      else Inl (errors_New ''Invalid setting for StopBits.''))"

definition set_parity_mode :: "OpenOptions \<Rightarrow> termios \<Rightarrow> error + termios" where
  "set_parity_mode options result =
     (if ParityMode options = PARITY_NONE then Inr result
      else if ParityMode options = PARITY_ODD then
        (let result = result\<lparr>c_cflag := c_cflag result OR kPARENB\<rparr>;
             result = result\<lparr>c_cflag := c_cflag result OR kPARODD\<rparr>
         in Inr result)
      else if ParityMode options = PARITY_EVEN then
        Inr (result\<lparr>c_cflag := c_cflag result OR kPARENB\<rparr>)
      else Inl (errors_New ''Invalid setting for ParityMode.''))"

definition and_then :: "error + 'a \<Rightarrow> ('a \<Rightarrow> error + 'b) \<Rightarrow> error + 'b" where
  "and_then r f = (case r of Inl e \<Rightarrow> Inl e | Inr x \<Rightarrow> f x)"

definition convertOptions :: "OpenOptions \<Rightarrow> error + termios" where
  "convertOptions options =
     (let result = zero_termios;
          result = result\<lparr>c_cflag := c_cflag result OR kCLOCAL\<rparr>;
          result = result\<lparr>c_cflag := c_cflag result OR kCREAD\<rparr>
      in and_then (set_vmin_vtime options result) (\<lambda>result.
         and_then (set_baud_rate options result) (\<lambda>result.
         and_then (set_data_bits options result) (\<lambda>result.
         and_then (set_stop_bits options result) (\<lambda>result.
         set_parity_mode options result)))))"

text \<open>The conditions under which each block passes, read off the inputs.\<close>

definition valid_timing :: "OpenOptions \<Rightarrow> bool" where
  "valid_timing options =
     ((0 < MinimumReadSize options \<or> 50 \<le> InterCharacterTimeout options)
      \<and> InterCharacterTimeout options < 25550)"

definition valid_baud_rate :: "OpenOptions \<Rightarrow> bool" where
  "valid_baud_rate options = (BaudRate options \<in> set baud_rates)"

definition valid_data_bits :: "OpenOptions \<Rightarrow> bool" where
  "valid_data_bits options = (DataBits options \<in> {5, 6, 7, 8})"

definition valid_stop_bits :: "OpenOptions \<Rightarrow> bool" where
  "valid_stop_bits options = (StopBits options \<in> {1, 2})"

definition valid_parity_mode :: "OpenOptions \<Rightarrow> bool" where
  "valid_parity_mode options = (ParityMode options \<in> {PARITY_NONE, PARITY_ODD, PARITY_EVEN})"

text \<open>The nearest multiple of 100 to \<open>t\<close>, a tie going up.\<close>

definition nearest_100 :: "nat \<Rightarrow> nat" where
  "nearest_100 t = (t + 50) div 100 * 100"

section \<open>openInternal\<close>

text \<open>
  The operating system is a record of the answers its calls give: \<open>open\<close> answers with
  an errno or a descriptor, \<open>fcntl\<close> and \<open>ioctl\<close> with the pair \<open>(r1, errno)\<close> that
  \<open>syscall.Syscall\<close> returns. The descriptor table is explicit state: the descriptors
  that are open, and the log of the close calls made. \<open>os.OpenFile\<close> enters the new
  descriptor in the table; \<open>File_Close\<close> is what closing it would do, and
  \<open>openInternal\<close> has no call of it.
\<close>

type_synonym fd = nat

record os_calls =
  sys_open :: "string \<Rightarrow> nat + fd"
  sys_fcntl :: "fd \<Rightarrow> nat \<times> nat"
  sys_ioctl :: "fd \<Rightarrow> termios \<Rightarrow> nat \<times> nat"

record fd_table =
  open_fds :: "fd list"
  close_log :: "fd list"

definition os_NewSyscallError :: "string \<Rightarrow> nat \<Rightarrow> error option" where
  "os_NewSyscallError syscall errno = (if errno = 0 then None else Some (SyscallError syscall errno))"

definition os_OpenFile :: "os_calls \<Rightarrow> string \<Rightarrow> fd_table \<Rightarrow> (error + fd) \<times> fd_table" where
  "os_OpenFile os name tab =
     (case sys_open os name of
        Inl errno \<Rightarrow> (Inl (PathError name errno), tab)
      | Inr file \<Rightarrow> (Inr file, tab\<lparr>open_fds := file # open_fds tab\<rparr>))"

definition File_Close :: "fd \<Rightarrow> fd_table \<Rightarrow> fd_table" where
  "File_Close file tab =
     tab\<lparr>open_fds := removeAll file (open_fds tab), close_log := close_log tab @ [file]\<rparr>"

definition setTermios :: "os_calls \<Rightarrow> fd \<Rightarrow> termios \<Rightarrow> error option" where
  "setTermios os file src =
     (let (r1, errno) = sys_ioctl os file src
      in case os_NewSyscallError ''SYS_IOCTL'' errno of
           Some err \<Rightarrow> Some err
         | None \<Rightarrow> if r1 \<noteq> 0 then Some (errors_New ''Unknown error from SYS_IOCTL.'') else None)"

definition openInternal :: "os_calls \<Rightarrow> OpenOptions \<Rightarrow> fd_table \<Rightarrow> (error + fd) \<times> fd_table" where
  "openInternal os options tab0 =
     (let (opened, tab) = os_OpenFile os (PortName options) tab0
      in (case opened of
            Inl err \<Rightarrow> (Inl err, tab)
          | Inr file \<Rightarrow>
              (let (r1, errno) = sys_fcntl os file
               in (case os_NewSyscallError ''SYS_IOCTL'' errno of
                     Some err \<Rightarrow> (Inl err, tab)
                   | None \<Rightarrow>
                       (if r1 \<noteq> 0 then (Inl (errors_New ''Unknown error from SYS_FCNTL.''), tab)
                        else (case convertOptions options of
                                Inl err \<Rightarrow> (Inl err, tab)
                              | Inr terminalOptions \<Rightarrow>
                                  (case setTermios os file terminalOptions of
                                     Some err \<Rightarrow> (Inl err, tab)
                                   | None \<Rightarrow> (Inr file, tab))))))))"

section \<open>Concrete inputs\<close>

text \<open>
  The spec's end-to-end example: 9600 baud, eight data bits, one stop bit, no parity, a
  minimum read size of one byte and no timeout, and the structure it converts to.
\<close>

definition example_options :: OpenOptions where
  "example_options = \<lparr>PortName = ''/dev/tty.usbserial'', BaudRate = 9600, DataBits = 8,
     StopBits = 1, ParityMode = PARITY_NONE, InterCharacterTimeout = 0, MinimumReadSize = 1\<rparr>"

definition example_termios :: termios where
  "example_termios = \<lparr>c_iflag = 0, c_oflag = 0, c_cflag = 0x8B00, c_lflag = 0,
     c_cc = [0, 0, 0, 0, 0, 0, 0, 0, 0, 0, 0, 0, 0, 0, 0, 0, 1, 0, 0, 0],
     c_ispeed = 9600, c_ospeed = 9600\<rparr>"

text \<open>
  An operating system on which every call succeeds and \<open>open\<close> hands out descriptor 3,
  and one whose \<open>fcntl\<close> fails with \<open>EBADF\<close>; a descriptor table with nothing open.
\<close>

definition no_descriptors :: fd_table where
  "no_descriptors = \<lparr>open_fds = [], close_log = []\<rparr>"

definition working_os :: os_calls where
  "working_os = \<lparr>sys_open = (\<lambda>name. Inr 3), sys_fcntl = (\<lambda>file. (0, 0)),
     sys_ioctl = (\<lambda>file src. (0, 0))\<rparr>"

definition failing_fcntl_os :: os_calls where
  "failing_fcntl_os = working_os\<lparr>sys_fcntl := (\<lambda>file. (18446744073709551615, 9))\<rparr>"

text \<open>
  What the spec asks of a failed open, in its words: between the table before the call and
  the table after it the descriptor has been closed exactly once and is no longer open.
\<close>

definition closed_exactly_once :: "fd \<Rightarrow> fd_table \<Rightarrow> fd_table \<Rightarrow> bool" where
  "closed_exactly_once file before after =
     (count_list (close_log after) file = count_list (close_log before) file + 1
      \<and> file \<notin> set (open_fds after))"

section \<open>Rounding to float64: monotone, and exact on short dyadic numbers\<close>

lemma rne_of_int: "rne (of_int n) = n"
  by (simp add: rne_def)

lemma rne_floor_le: "\<lfloor>x\<rfloor> \<le> rne x"
  by (simp add: rne_def Let_def)

lemma rne_le_floor: "rne x \<le> \<lfloor>x\<rfloor> + 1"
  by (simp add: rne_def Let_def)

lemma rne_mono: assumes "x \<le> y" shows "rne x \<le> rne y"
proof (cases "\<lfloor>x\<rfloor> = \<lfloor>y\<rfloor>")
  case True
  with assms show ?thesis by (auto simp: rne_def Let_def)
next
  case False
  with assms have "\<lfloor>x\<rfloor> < \<lfloor>y\<rfloor>" by (simp add: floor_mono order.strict_iff_order)
  then have "rne x \<le> \<lfloor>y\<rfloor>" using rne_le_floor [of x] by linarith
  then show ?thesis using rne_floor_le [of y] by linarith
qed

lemma binade_lower: assumes "0 < x" shows "2 powi binade x \<le> x"
proof (cases "1 \<le> x")
  case True
  then have n: "0 < \<lfloor>x\<rfloor>" by linarith
  have b: "1 \<le> bitlen \<lfloor>x\<rfloor>" using n bitlen_eq_zero_iff [of "\<lfloor>x\<rfloor>"] bitlen_nonneg [of "\<lfloor>x\<rfloor>"] by linarith
  from bitlen_bounds [OF n] have "2 ^ nat (bitlen \<lfloor>x\<rfloor> - 1) \<le> \<lfloor>x\<rfloor>" by simp
  then have "(of_int (2 ^ nat (bitlen \<lfloor>x\<rfloor> - 1)) :: rat) \<le> of_int \<lfloor>x\<rfloor>" by (simp only: of_int_le_iff)
  then have "(2 :: rat) ^ nat (bitlen \<lfloor>x\<rfloor> - 1) \<le> of_int \<lfloor>x\<rfloor>" by (simp only: of_int_power of_int_numeral)
  moreover have "of_int \<lfloor>x\<rfloor> \<le> x" by simp
  ultimately have "(2 :: rat) ^ nat (bitlen \<lfloor>x\<rfloor> - 1) \<le> x" by linarith
  then show ?thesis using True b by (simp add: binade_def power_int_def)
next
  case False
  define m where "m = \<lceil>1 / x\<rceil> - 1"
  have y: "1 < 1 / x" using False assms by simp
  then have m: "0 < m" unfolding m_def by linarith
  have b: "1 \<le> bitlen m" using m bitlen_eq_zero_iff [of m] bitlen_nonneg [of m] by linarith
  from bitlen_bounds [OF m] have "m + 1 \<le> 2 ^ nat (bitlen m)" by simp
  then have "(of_int (m + 1) :: rat) \<le> of_int (2 ^ nat (bitlen m))" by (simp only: of_int_le_iff)
  then have "(of_int (m + 1) :: rat) \<le> 2 ^ nat (bitlen m)" by (simp only: of_int_power of_int_numeral)
  moreover have "1 / x \<le> of_int (m + 1)" unfolding m_def by simp
  ultimately have "1 / x \<le> 2 ^ nat (bitlen m)" by linarith
  then have "1 / 2 ^ nat (bitlen m) \<le> x" using assms by (simp add: field_simps)
  then show ?thesis using False b by (simp add: binade_def power_int_def m_def inverse_eq_divide power_one_over [symmetric])
qed

lemma binade_upper: assumes "0 < x" shows "x < 2 powi (binade x + 1)"
proof (cases "1 \<le> x")
  case True
  then have n: "0 < \<lfloor>x\<rfloor>" by linarith
  have b: "1 \<le> bitlen \<lfloor>x\<rfloor>" using n bitlen_eq_zero_iff [of "\<lfloor>x\<rfloor>"] bitlen_nonneg [of "\<lfloor>x\<rfloor>"] by linarith
  from bitlen_bounds [OF n] have "\<lfloor>x\<rfloor> + 1 \<le> 2 ^ nat (bitlen \<lfloor>x\<rfloor>)" by simp
  then have "(of_int (\<lfloor>x\<rfloor> + 1) :: rat) \<le> of_int (2 ^ nat (bitlen \<lfloor>x\<rfloor>))" by (simp only: of_int_le_iff)
  then have "(of_int (\<lfloor>x\<rfloor> + 1) :: rat) \<le> 2 ^ nat (bitlen \<lfloor>x\<rfloor>)" by (simp only: of_int_power of_int_numeral)
  moreover have "x < of_int (\<lfloor>x\<rfloor> + 1)" by linarith
  ultimately have "x < 2 ^ nat (bitlen \<lfloor>x\<rfloor>)" by linarith
  then show ?thesis using True b by (simp add: binade_def power_int_def)
next
  case False
  define m where "m = \<lceil>1 / x\<rceil> - 1"
  have y: "1 < 1 / x" using False assms by simp
  then have m: "0 < m" unfolding m_def by linarith
  have b: "1 \<le> bitlen m" using m bitlen_eq_zero_iff [of m] bitlen_nonneg [of m] by linarith
  from bitlen_bounds [OF m] have "2 ^ nat (bitlen m - 1) \<le> m" by simp
  then have "(of_int (2 ^ nat (bitlen m - 1)) :: rat) \<le> of_int m" by (simp only: of_int_le_iff)
  then have "(2 :: rat) ^ nat (bitlen m - 1) \<le> of_int m" by (simp only: of_int_power of_int_numeral)
  moreover have "of_int m < 1 / x" unfolding m_def by linarith
  ultimately have "2 ^ nat (bitlen m - 1) < 1 / x" by linarith
  then have "x < 1 / 2 ^ nat (bitlen m - 1)" using assms by (simp add: field_simps)
  moreover have "binade x + 1 = - (bitlen m - 1)" using False by (simp add: binade_def m_def)
  moreover have "(2::rat) powi (- (bitlen m - 1)) = inverse (2 powi (bitlen m - 1))"
    by (rule power_int_minus)
  moreover have "inverse ((2::rat) powi (bitlen m - 1)) = 1 / 2 ^ nat (bitlen m - 1)"
    using b by (simp add: power_int_nonneg_exp inverse_eq_divide)
  ultimately show ?thesis by simp
qed


lemma fl_pos:
  "0 < x \<Longrightarrow> fl x = of_int (rne (x / 2 powi (binade x - 52))) * 2 powi (binade x - 52)"
  by (simp add: fl_def Let_def)

lemma two_powi_shift: "(2::rat) powi (e + int k) = 2 ^ k * 2 powi e"
  by (simp add: power_int_add)

lemma quantum_lower: "(2::rat) powi e = 2 ^ 52 * 2 powi (e - 52)"
  using two_powi_shift [of "e - 52" 52] by simp

lemma quantum_upper: "(2::rat) powi (e + 1) = 2 ^ 53 * 2 powi (e - 52)"
  using two_powi_shift [of "e - 52" 53] by (simp add: add.commute)

lemma fl_lower: assumes "0 < x" shows "2 powi binade x \<le> fl x"
proof -
  define q :: rat where "q = 2 powi (binade x - 52)"
  have q: "0 < q" by (simp add: q_def)
  have "2 ^ 52 * q \<le> x" using binade_lower [OF assms] quantum_lower [of "binade x"] by (simp add: q_def)
  then have "of_int (2 ^ 52) \<le> x / q" using q by (simp add: field_simps)
  then have "rne (of_int (2 ^ 52)) \<le> rne (x / q)" by (rule rne_mono)
  then have "2 ^ 52 \<le> rne (x / q)" by (simp only: rne_of_int)
  then have "(of_int (2 ^ 52) :: rat) \<le> of_int (rne (x / q))" by (simp only: of_int_le_iff)
  then have "2 ^ 52 * q \<le> of_int (rne (x / q)) * q" using q by simp
  then show ?thesis using quantum_lower [of "binade x"] by (simp add: fl_pos [OF assms] q_def)
qed

lemma fl_upper: assumes "0 < x" shows "fl x \<le> 2 powi (binade x + 1)"
proof -
  define q :: rat where "q = 2 powi (binade x - 52)"
  have q: "0 < q" by (simp add: q_def)
  have "x < 2 ^ 53 * q" using binade_upper [OF assms] quantum_upper [of "binade x"] by (simp add: q_def)
  then have "x / q \<le> of_int (2 ^ 53)" using q by (simp add: field_simps)
  then have "rne (x / q) \<le> rne (of_int (2 ^ 53))" by (rule rne_mono)
  then have "rne (x / q) \<le> 2 ^ 53" by (simp only: rne_of_int)
  then have "(of_int (rne (x / q)) :: rat) \<le> of_int (2 ^ 53)" by (simp only: of_int_le_iff)
  then have "of_int (rne (x / q)) * q \<le> 2 ^ 53 * q" using q by simp
  then show ?thesis using quantum_upper [of "binade x"] by (simp add: fl_pos [OF assms] q_def)
qed

lemma fl_nonneg: assumes "0 \<le> x" shows "0 \<le> fl x"
proof (cases "x = 0")
  case True
  then show ?thesis by (simp add: fl_def)
next
  case False
  with assms have "0 < x" by simp
  from fl_lower [OF this] show ?thesis
    using zero_less_power_int [of "2::rat" "binade x"] by linarith
qed

lemma binade_mono: assumes "0 < x" "x \<le> y" shows "binade x \<le> binade y"
proof (rule ccontr)
  assume "\<not> binade x \<le> binade y"
  then have "binade y + 1 \<le> binade x" by simp
  then have "(2::rat) powi (binade y + 1) \<le> 2 powi binade x"
    by (rule power_int_increasing) simp
  moreover have "y < 2 powi (binade y + 1)" using assms by (intro binade_upper) simp
  moreover have "2 powi binade x \<le> x" using assms by (intro binade_lower)
  ultimately show False using assms by linarith
qed

lemma fl_mono: assumes "0 \<le> x" "x \<le> y" shows "fl x \<le> fl y"
proof (cases "x = 0")
  case True
  then show ?thesis using assms fl_nonneg [of y] by (simp add: fl_def)
next
  case False
  with assms have x: "0 < x" and y: "0 < y" by simp_all
  show ?thesis
  proof (cases "binade x = binade y")
    case True
    define q :: rat where "q = 2 powi (binade x - 52)"
    have q: "0 < q" by (simp add: q_def)
    have "x / q \<le> y / q" using assms q by (simp add: divide_right_mono)
    then have "rne (x / q) \<le> rne (y / q)" by (rule rne_mono)
    then have "(of_int (rne (x / q)) :: rat) \<le> of_int (rne (y / q))" by (simp only: of_int_le_iff)
    then have "of_int (rne (x / q)) * q \<le> of_int (rne (y / q)) * q" using q by simp
    then show ?thesis using True by (simp add: fl_pos [OF x] fl_pos [OF y] q_def)
  next
    case False
    with binade_mono [OF x assms(2)] have "binade x + 1 \<le> binade y" by simp
    then have "(2::rat) powi (binade x + 1) \<le> 2 powi binade y"
      by (rule power_int_increasing) simp
    then show ?thesis using fl_upper [OF x] fl_lower [OF y] by linarith
  qed
qed

lemma fl_dyadic: assumes "0 \<le> m" "m < 2 ^ 53" shows "fl (of_int m / 2 ^ j) = of_int m / 2 ^ j"
proof (cases "m = 0")
  case True
  then show ?thesis by (simp add: fl_def)
next
  case False
  define x :: rat where "x = of_int m / 2 ^ j"
  define e where "e = binade x"
  define q :: rat where "q = 2 powi (e - 52)"
  from False assms have m: "0 < m" by simp
  then have x: "0 < x" by (simp add: x_def)
  have q: "0 < q" by (simp add: q_def)
  have "(of_int m :: rat) < of_int (2 ^ 53)" using assms by (simp only: of_int_less_iff)
  then have m53: "(of_int m :: rat) < 2 ^ 53" by simp
  have "2 powi e \<le> x" unfolding e_def by (rule binade_lower [OF x])
  then have "(2::rat) powi e * 2 ^ j \<le> of_int m" by (simp add: x_def field_simps)
  then have "(2::rat) powi (e + int j) < 2 powi 53"
    using m53 by (simp add: two_powi_shift mult.commute)
  then have "e + int j < 53"
    by (rule power_int_le_imp_less_exp [rotated]) simp_all
  then have "52 - e = int j + int (nat (52 - e - int j))" by simp
  then obtain k :: nat where k: "52 - e = int j + int k" ..
  have "x / q = x * 2 powi (52 - e)"
    by (simp add: q_def power_int_diff field_simps)
  also have "\<dots> = x * (2 ^ j * 2 ^ k)"
    by (simp add: k power_int_add)
  also have "\<dots> = of_int (m * 2 ^ k)" by (simp add: x_def)
  finally have xq: "x / q = of_int (m * 2 ^ k)" .
  have "fl x = of_int (rne (x / q)) * q" unfolding q_def e_def by (rule fl_pos [OF x])
  also have "\<dots> = x / q * q" by (simp only: xq rne_of_int)
  also have "\<dots> = x" using q by simp
  finally show ?thesis by (simp add: x_def)
qed

lemma fl_int: "0 \<le> m \<Longrightarrow> m < 2 ^ 53 \<Longrightarrow> fl (of_int m) = of_int m"
  using fl_dyadic [of m 0] by simp

section \<open>The timeout computed in float64 against integer rounding\<close>

lemma vtime_of_exact:
  assumes "InterCharacterTimeout options < 2 ^ 52"
  shows "vtime_of options = nearest_100 (InterCharacterTimeout options)"
proof -
  define t where "t = InterCharacterTimeout options"
  define k where "k = int ((t + 50) div 100)"
  have t: "t < 2 ^ 52" using assms by (simp add: t_def)
  have k0: "0 \<le> k" by (simp add: k_def)
  have klo: "100 * k \<le> int t + 50" and khi: "int t + 50 < 100 * k + 100"
    unfolding k_def by (simp_all add: zdiv_int) 
  have ksmall: "128 * k + 127 < 2 ^ 53" using klo t by simp
  define q where "q = fdiv (float64_of_uint t) 100"
  define s where "s = fadd q (1 / 2)"
  have a: "float64_of_uint t = of_nat t"
    using fl_int [of "int t"] t by (simp add: float64_of_uint_def)
  have q_eq: "q = fl (of_nat t / 100)" by (simp add: q_def fdiv_def a)
  have q0: "0 \<le> q" unfolding q_eq by (rule fl_nonneg) simp
  have q_lo: "of_int k \<le> q + 1 / 2"
  proof (cases "k = 0")
    case True
    then show ?thesis using q0 by simp
  next
    case False
    have "100 * (2 * k - 1) \<le> 2 * int t" using klo by simp
    then have "(of_int (100 * (2 * k - 1)) :: rat) \<le> of_int (2 * int t)"
      by (simp only: of_int_le_iff)
    then have "of_int (2 * k - 1) / 2 ^ 1 \<le> (of_nat t :: rat) / 100"
      by (simp add: field_simps)
    moreover have "(0::rat) \<le> of_int (2 * k - 1) / 2 ^ 1" using False k0 by simp
    ultimately have "fl (of_int (2 * k - 1) / 2 ^ 1) \<le> q" unfolding q_eq by (intro fl_mono)
    moreover have "fl (of_int (2 * k - 1) / 2 ^ 1) = of_int (2 * k - 1) / 2 ^ 1"
      using False k0 ksmall by (intro fl_dyadic) simp_all
    ultimately show ?thesis by (simp add: field_simps)
  qed
  have q_hi: "q + 1 / 2 \<le> of_int (128 * k + 127) / 2 ^ 7"
  proof -
    have "128 * int t \<le> 100 * (128 * k + 63)" using khi by simp
    then have "(of_int (128 * int t) :: rat) \<le> of_int (100 * (128 * k + 63))"
      by (simp only: of_int_le_iff)
    then have "(of_nat t :: rat) / 100 \<le> of_int (128 * k + 63) / 2 ^ 7"
      by (simp add: field_simps)
    moreover have "(0::rat) \<le> of_nat t / 100" by simp
    ultimately have "q \<le> fl (of_int (128 * k + 63) / 2 ^ 7)" unfolding q_eq by (intro fl_mono)
    moreover have "fl (of_int (128 * k + 63) / 2 ^ 7) = of_int (128 * k + 63) / 2 ^ 7"
      using k0 ksmall by (intro fl_dyadic) simp_all
    ultimately show ?thesis by (simp add: field_simps)
  qed
  have s_lo: "of_int k \<le> s"
  proof -
    have "fl (of_int k) \<le> fl (q + 1 / 2)" using q_lo k0 by (intro fl_mono) simp_all
    moreover have "fl (of_int k) = of_int k" using k0 ksmall by (intro fl_int) simp_all
    ultimately show ?thesis by (simp add: s_def fadd_def)
  qed
  have s_hi: "s < of_int k + 1"
  proof -
    have "fl (q + 1 / 2) \<le> fl (of_int (128 * k + 127) / 2 ^ 7)"
      using q_hi q0 by (intro fl_mono) simp_all
    moreover have "fl (of_int (128 * k + 127) / 2 ^ 7) = of_int (128 * k + 127) / 2 ^ 7"
      using k0 ksmall by (intro fl_dyadic) simp_all
    ultimately have "s \<le> of_int (128 * k + 127) / 2 ^ 7" by (simp add: s_def fadd_def)
    then show ?thesis by (simp add: field_simps)
  qed
  have "\<lfloor>s\<rfloor> = k" using s_lo s_hi by (simp add: floor_eq_iff)
  then have r: "round_f64 q = of_int k" by (simp add: round_f64_def math_Floor_def s_def)
  have "fmul (of_int k) 100 = fl (of_int (k * 100))" by (simp add: fmul_def)
  also have "\<dots> = of_int (k * 100)" using k0 ksmall by (intro fl_int) simp_all
  finally have "uint_of_float64 (fmul (round_f64 q) 100) = nat (k * 100)"
    by (simp only: r uint_of_float64_def floor_of_int)
  also have "\<dots> = nearest_100 t"
    by (simp add: k_def nearest_100_def nat_mult_distrib)
  finally show ?thesis by (simp add: vtime_of_def q_def t_def)
qed

lemma vtime_of_large:
  assumes "25550 \<le> InterCharacterTimeout options"
  shows "25600 \<le> vtime_of options"
proof -
  define t where "t = InterCharacterTimeout options"
  define a where "a = float64_of_uint t"
  define q where "q = fdiv a 100"
  define s where "s = fadd q (1 / 2)"
  define p where "p = fmul (math_Floor s) 100"
  have "fl (of_int 25550) \<le> fl (of_nat t)" using assms by (intro fl_mono) (simp_all add: t_def)
  moreover have "fl (of_int 25550) = of_int 25550" by (intro fl_int) simp_all
  ultimately have a: "25550 \<le> a" by (simp add: a_def float64_of_uint_def)
  have "fl (of_int 511 / 2 ^ 1) \<le> fl (a / 100)" using a by (intro fl_mono) simp_all
  moreover have "fl (of_int 511 / 2 ^ 1) = of_int 511 / 2 ^ 1" by (intro fl_dyadic) simp_all
  ultimately have q: "511 / 2 \<le> q" by (simp add: q_def fdiv_def)
  have "fl (of_int 256) \<le> fl (q + 1 / 2)" using q by (intro fl_mono) simp_all
  moreover have "fl (of_int 256) = of_int 256" by (intro fl_int) simp_all
  ultimately have s: "256 \<le> s" by (simp add: s_def fadd_def)
  then have "256 \<le> \<lfloor>s\<rfloor>" by (simp add: le_floor_iff)
  then have "(of_int 256 :: rat) \<le> of_int \<lfloor>s\<rfloor>" by (simp only: of_int_le_iff)
  then have f: "256 \<le> math_Floor s" by (simp add: math_Floor_def)
  have "fl (of_int 25600) \<le> fl (math_Floor s * 100)" using f by (intro fl_mono) simp_all
  moreover have "fl (of_int 25600) = of_int 25600" by (intro fl_int) simp_all
  ultimately have "25600 \<le> p" by (simp add: p_def fmul_def)
  then have "(25600::int) \<le> \<lfloor>p\<rfloor>" by (simp add: le_floor_iff)
  then have "25600 \<le> nat \<lfloor>p\<rfloor>" by linarith
  then show ?thesis
    by (simp add: vtime_of_def uint_of_float64_def round_f64_def p_def s_def q_def a_def t_def)
qed


section \<open>convertOptions as one case distinction on its input\<close>

lemma nearest_100_small: "nearest_100 t < 100 \<longleftrightarrow> t < 50"
proof -
  have "(t + 50) div 100 < 1 \<longleftrightarrow> t + 50 < 1 * 100"
    by (rule div_less_iff_less_mult) simp
  then show ?thesis by (simp add: nearest_100_def)
qed

lemma nearest_100_bound: assumes "t < 25550" shows "nearest_100 t \<le> 25500"
proof -
  have "(t + 50) div 100 < 256 \<longleftrightarrow> t + 50 < 256 * 100"
    by (rule div_less_iff_less_mult) simp
  with assms have "(t + 50) div 100 \<le> 255" by simp
  then have "(t + 50) div 100 * 100 \<le> 255 * 100" by (rule mult_le_mono1)
  then show ?thesis by (simp add: nearest_100_def)
qed

lemma set_vmin_vtime_eq:
  "set_vmin_vtime options result =
     (if MinimumReadSize options = 0 \<and> InterCharacterTimeout options < 50 then
        Inl (errors_New ''Invalid values for InterCharacterTimeout and MinimumReadSize.'')
      else if 25550 \<le> InterCharacterTimeout options then
        Inl (errors_New ''Invalid value for InterCharacterTimeout.'')
      else Inr (result\<lparr>c_cc := (c_cc result)
                  [unat kVTIME := of_nat (nearest_100 (InterCharacterTimeout options) div 100),
                   unat kVMIN := of_nat (MinimumReadSize options)]\<rparr>))"
proof (cases "InterCharacterTimeout options < 25550")
  case True
  then have "InterCharacterTimeout options < 2 ^ 52" by simp
  then have v: "vtime_of options = nearest_100 (InterCharacterTimeout options)"
    by (rule vtime_of_exact)
  show ?thesis
    using True nearest_100_bound [OF True]
    by (simp add: set_vmin_vtime_def Let_def v nearest_100_small)
next
  case False
  then have "25600 \<le> vtime_of options" by (intro vtime_of_large) simp
  then show ?thesis using False by (simp add: set_vmin_vtime_def Let_def)
qed

lemma convertOptions_eq:
  "convertOptions options =
     (if MinimumReadSize options = 0 \<and> InterCharacterTimeout options < 50 then
        Inl (errors_New ''Invalid values for InterCharacterTimeout and MinimumReadSize.'')
      else if 25550 \<le> InterCharacterTimeout options then
        Inl (errors_New ''Invalid value for InterCharacterTimeout.'')
      else if BaudRate options \<notin> set baud_rates then
        Inl (errors_New ''Invalid setting for BaudRate.'')
      else if DataBits options \<notin> {5, 6, 7, 8} then
        Inl (errors_New ''Invalid setting for DataBits.'')
      else if StopBits options \<notin> {1, 2} then
        Inl (errors_New ''Invalid setting for StopBits.'')
      else if ParityMode options \<notin> {PARITY_NONE, PARITY_ODD, PARITY_EVEN} then
        Inl (errors_New ''Invalid setting for ParityMode.'')
      else Inr \<lparr>c_iflag = 0, c_oflag = 0,
        c_cflag = kCLOCAL OR kCREAD
          OR (if DataBits options = 5 then kCS5 else if DataBits options = 6 then kCS6
              else if DataBits options = 7 then kCS7 else kCS8)
          OR (if StopBits options = 2 then kCSTOPB else 0)
          OR (if ParityMode options = PARITY_ODD then kPARENB OR kPARODD
              else if ParityMode options = PARITY_EVEN then kPARENB else 0),
        c_lflag = 0,
        c_cc = (replicate kNCCS 0)
          [unat kVTIME := of_nat (nearest_100 (InterCharacterTimeout options) div 100),
           unat kVMIN := of_nat (MinimumReadSize options)],
        c_ispeed = of_int (BaudRate options), c_ospeed = of_int (BaudRate options)\<rparr>)"
  by (simp add: convertOptions_def Let_def and_then_def set_vmin_vtime_eq set_baud_rate_def
      set_data_bits_def set_stop_bits_def set_parity_mode_def zero_termios_def
      PARITY_NONE_def PARITY_ODD_def PARITY_EVEN_def or.assoc)


lemmas flag_defs = kCS5_def kCS6_def kCS7_def kCS8_def kCLOCAL_def kCREAD_def kCSTOPB_def
  kPARENB_def kPARODD_def kIGNPAR_def

lemmas parity_defs = PARITY_NONE_def PARITY_ODD_def PARITY_EVEN_def

lemma unat_kVTIME: "unat kVTIME = 17"
  by (simp add: kVTIME_def)

lemma unat_kVMIN: "unat kVMIN = 16"
  by (simp add: kVMIN_def)

lemma cc_table: "(replicate kNCCS 0)[unat kVTIME := a, unat kVMIN := b]
   = [0, 0, 0, 0, 0, 0, 0, 0, 0, 0, 0, 0, 0, 0, 0, 0, b, a, 0, 0]"
  unfolding unat_kVTIME unat_kVMIN kNCCS_def by (simp add: eval_nat_numeral)

lemma example_converts: "convertOptions example_options = Inr example_termios"
  by (simp add: convertOptions_eq cc_table example_options_def example_termios_def baud_rates_def
      parity_defs flag_defs nearest_100_def)

lemmas valid_defs = valid_timing_def valid_baud_rate_def valid_data_bits_def
  valid_stop_bits_def valid_parity_mode_def

lemma baud_rates_set:
  "set baud_rates = {50, 75, 110, 134, 150, 200, 300, 600, 1200, 1800, 2400, 4800, 7200,
     9600, 14400, 19200, 28800, 38400, 57600, 76800, 115200, 230400}"
  by (simp add: baud_rates_def)

lemma uint_baud_rate:
  assumes "b \<in> set baud_rates" shows "uint (of_int b :: speed_t) = b"
proof -
  have "0 \<le> b" and "b < 2 ^ 64" using assms by (auto simp: baud_rates_def)
  then show ?thesis by (simp add: uint_word_of_int take_bit_int_eq_self)
qed

lemma convertOptions_valid:
  assumes "valid_timing options" "valid_baud_rate options" "valid_data_bits options"
    "valid_stop_bits options" "valid_parity_mode options"
  shows "\<exists>r. convertOptions options = Inr r"
  using assms by (auto simp: convertOptions_eq valid_defs)

lemma valid_timing_iff:
  "valid_timing options \<longleftrightarrow> (\<exists>r'. set_vmin_vtime options r = Inr r')"
  by (auto simp: valid_timing_def set_vmin_vtime_eq)

lemma convertOptions_succeeds_iff:
  "(\<exists>r. convertOptions options = Inr r) \<longleftrightarrow>
     valid_timing options \<and> valid_baud_rate options \<and> valid_data_bits options
     \<and> valid_stop_bits options \<and> valid_parity_mode options"
  by (auto simp: convertOptions_eq valid_defs split: if_splits)

lemma example_valid:
  "valid_timing example_options" "valid_baud_rate example_options"
  "valid_data_bits example_options" "valid_stop_bits example_options"
  "valid_parity_mode example_options"
  by (simp_all add: valid_defs example_options_def parity_defs baud_rates_def)

lemma nearest_100_nearest:
  "100 dvd nearest_100 t \<and> nearest_100 t \<le> t + 50 \<and> t < nearest_100 t + 50"
proof -
  have "(t + 50) div 100 * 100 + (t + 50) mod 100 = t + 50" by simp
  moreover have "(t + 50) mod 100 < 100" by simp
  ultimately show ?thesis unfolding nearest_100_def by (simp add: dvd_def)
qed

lemma nearest_100_large: "25500 < nearest_100 t \<longleftrightarrow> 25550 \<le> t"
proof -
  have "(t + 50) div 100 < 256 \<longleftrightarrow> t + 50 < 256 * 100"
    by (rule div_less_iff_less_mult) simp
  moreover have "255 * 100 < (t + 50) div 100 * 100 \<longleftrightarrow> 255 < (t + 50) div 100"
    by (simp only: mult_less_cancel2) simp
  ultimately show ?thesis unfolding nearest_100_def by auto
qed

lemma time_slot: "length xs = kNCCS \<Longrightarrow> xs[unat kVTIME := a, unat kVMIN := b] ! unat kVTIME = a"
  by (simp add: unat_kVTIME unat_kVMIN kNCCS_def)

lemma min_slot: "length xs = kNCCS \<Longrightarrow> xs[unat kVTIME := a, unat kVMIN := b] ! unat kVMIN = b"
  by (simp add: unat_kVTIME unat_kVMIN kNCCS_def)

lemma nearest_100_div_byte:
  assumes "t < 25550" shows "unat (of_nat (nearest_100 t div 100) :: cc_t) = nearest_100 t div 100"
proof -
  have "nearest_100 t div 100 \<le> 255" using nearest_100_bound [OF assms] by simp
  then show ?thesis by (simp add: unat_of_nat take_bit_nat_eq_self)
qed

lemma convertOptions_MIN_slot:
  assumes "convertOptions options = Inr r"
  shows "unat (c_cc r ! unat kVMIN) = MinimumReadSize options mod 256"
proof -
  from assms have "c_cc r ! unat kVMIN = of_nat (MinimumReadSize options)"
    by (auto simp: convertOptions_eq min_slot split: if_splits)
  then show ?thesis by (simp add: unat_of_nat take_bit_eq_mod)
qed

lemma File_Close_closes_once:
  "file \<in> set (open_fds tab) \<Longrightarrow> closed_exactly_once file tab (File_Close file tab)"
  by (simp add: closed_exactly_once_def File_Close_def)

section \<open>The timing options\<close>

text \<open>
  C2, as the spec states it: with \<open>MinimumReadSize = 0\<close> a timeout of 50 is rejected, a
  timeout of 100 is accepted and stored as 1, and in general \<open>MinimumReadSize = 0\<close> needs
  a timeout of at least 100. The code rounds the timeout before it checks it, and 50
  rounds up to 100: the conversion of that input succeeds and stores 1.
\<close>

theorem convertOptions_timeout_50_succeeds:
  "convertOptions (example_options\<lparr>InterCharacterTimeout := 50, MinimumReadSize := 0\<rparr>)
     = Inr (example_termios\<lparr>c_cc := [0, 0, 0, 0, 0, 0, 0, 0, 0, 0, 0, 0, 0, 0, 0, 0, 0, 1, 0, 0]\<rparr>)"
  by (simp add: convertOptions_eq cc_table example_options_def example_termios_def baud_rates_def
      parity_defs flag_defs nearest_100_def)

text \<open>
  C2, amended. With \<open>MinimumReadSize = 0\<close>, every timeout below 50 (49, say) fails with
  the error about both timing options; the timeouts 50 and 100 are accepted, other fields
  valid, and stored as 1 in the \<open>TIME\<close> slot; and whenever the conversion succeeds with
  \<open>MinimumReadSize = 0\<close> the timeout is at least 50.
\<close>

theorem convertOptions_zero_minimum_read_size:
  "(MinimumReadSize options = 0 \<and> InterCharacterTimeout options < 50 \<longrightarrow>
      convertOptions options
        = Inl (errors_New ''Invalid values for InterCharacterTimeout and MinimumReadSize.''))
   \<and> (MinimumReadSize options = 0 \<and> InterCharacterTimeout options \<in> {50, 100}
        \<and> valid_baud_rate options \<and> valid_data_bits options \<and> valid_stop_bits options
        \<and> valid_parity_mode options \<longrightarrow>
      (\<exists>r. convertOptions options = Inr r \<and> c_cc r ! unat kVTIME = 1))
   \<and> (MinimumReadSize options = 0 \<and> convertOptions options = Inr r \<longrightarrow>
        50 \<le> InterCharacterTimeout options)"
proof -
  have "nearest_100 50 div 100 = 1" "nearest_100 100 div 100 = 1"
    by (simp_all add: nearest_100_def)
  then show ?thesis
    by (auto simp: convertOptions_eq valid_defs time_slot split: if_splits)
qed

theorem convertOptions_zero_minimum_read_size_witness:
  "convertOptions (example_options\<lparr>InterCharacterTimeout := 49, MinimumReadSize := 0\<rparr>)
     = Inl (errors_New ''Invalid values for InterCharacterTimeout and MinimumReadSize.'')
   \<and> (\<exists>r. convertOptions (example_options\<lparr>InterCharacterTimeout := 100, MinimumReadSize := 0\<rparr>)
          = Inr r \<and> c_cc r ! unat kVTIME = 1
        \<and> 50 \<le> InterCharacterTimeout
                  (example_options\<lparr>InterCharacterTimeout := 100, MinimumReadSize := 0\<rparr>))"
proof -
  have others: "valid_baud_rate (example_options\<lparr>InterCharacterTimeout := t, MinimumReadSize := 0\<rparr>)
      \<and> valid_data_bits (example_options\<lparr>InterCharacterTimeout := t, MinimumReadSize := 0\<rparr>)
      \<and> valid_stop_bits (example_options\<lparr>InterCharacterTimeout := t, MinimumReadSize := 0\<rparr>)
      \<and> valid_parity_mode (example_options\<lparr>InterCharacterTimeout := t, MinimumReadSize := 0\<rparr>)"
    for t
    using example_valid by (simp add: valid_defs)
  from convertOptions_zero_minimum_read_size
    [of "example_options\<lparr>InterCharacterTimeout := 49, MinimumReadSize := 0\<rparr>"]
  have "convertOptions (example_options\<lparr>InterCharacterTimeout := 49, MinimumReadSize := 0\<rparr>)
     = Inl (errors_New ''Invalid values for InterCharacterTimeout and MinimumReadSize.'')"
    by simp
  moreover
  from convertOptions_zero_minimum_read_size
    [of "example_options\<lparr>InterCharacterTimeout := 100, MinimumReadSize := 0\<rparr>"]
  obtain r where
    r: "convertOptions (example_options\<lparr>InterCharacterTimeout := 100, MinimumReadSize := 0\<rparr>) = Inr r"
    and "c_cc r ! unat kVTIME = 1"
    using others [of 100] by auto
  moreover
  from convertOptions_zero_minimum_read_size
    [of "example_options\<lparr>InterCharacterTimeout := 100, MinimumReadSize := 0\<rparr>" r] r
  have "50 \<le> InterCharacterTimeout
                  (example_options\<lparr>InterCharacterTimeout := 100, MinimumReadSize := 0\<rparr>)"
    by simp
  ultimately show ?thesis by blast
qed

text \<open>
  C3. The spec wants the \<open>MIN\<close> slot to hold \<open>MinimumReadSize\<close> itself, which must fit
  one byte. The code checks the width of the timeout only, and \<open>cc_t(vmin)\<close> keeps the
  low byte: a \<open>MinimumReadSize\<close> of 256 with no timeout passes the sanity check, since
  it is not zero, and is then stored as 0 next to a \<open>TIME\<close> of 0.
\<close>

theorem convertOptions_minimum_read_size_256:
  "MinimumReadSize (example_options\<lparr>MinimumReadSize := 256\<rparr>) = 256
   \<and> convertOptions (example_options\<lparr>MinimumReadSize := 256\<rparr>)
     = Inr (example_termios\<lparr>c_cc := [0, 0, 0, 0, 0, 0, 0, 0, 0, 0, 0, 0, 0, 0, 0, 0, 0, 0, 0, 0]\<rparr>)"
  by (simp add: convertOptions_eq cc_table example_options_def example_termios_def baud_rates_def
      parity_defs flag_defs nearest_100_def)

text \<open>
  C4. \<open>vtime\<close> is the multiple of 100 nearest to \<open>InterCharacterTimeout\<close>, a tie going
  up: \<open>nearest_100\<close> is that multiple, the \<open>float64\<close> computation yields it for every
  timeout below \<open>2^52\<close>, the conversion fails with the timeout error whenever the rounded
  value exceeds 25500, and on success the \<open>TIME\<close> slot holds the rounded value in tenths.
  In particular 149 is stored as 1 and 150 as 2, other fields valid, and 25550 rounds to
  25600 and fails.
\<close>

theorem convertOptions_vtime_rounding:
  "100 dvd nearest_100 (InterCharacterTimeout options)
   \<and> nearest_100 (InterCharacterTimeout options) \<le> InterCharacterTimeout options + 50
   \<and> InterCharacterTimeout options < nearest_100 (InterCharacterTimeout options) + 50
   \<and> (InterCharacterTimeout options < 2 ^ 52 \<longrightarrow>
        vtime_of options = nearest_100 (InterCharacterTimeout options))
   \<and> (25500 < nearest_100 (InterCharacterTimeout options) \<longrightarrow>
        convertOptions options = Inl (errors_New ''Invalid value for InterCharacterTimeout.''))
   \<and> (convertOptions options = Inr r \<longrightarrow>
        nearest_100 (InterCharacterTimeout options) \<le> 25500
        \<and> unat (c_cc r ! unat kVTIME) * 100 = nearest_100 (InterCharacterTimeout options))
   \<and> (valid_baud_rate options \<and> valid_data_bits options \<and> valid_stop_bits options
        \<and> valid_parity_mode options \<longrightarrow>
        (InterCharacterTimeout options = 149 \<longrightarrow>
           (\<exists>r. convertOptions options = Inr r \<and> c_cc r ! unat kVTIME = 1))
        \<and> (InterCharacterTimeout options = 150 \<longrightarrow>
           (\<exists>r. convertOptions options = Inr r \<and> c_cc r ! unat kVTIME = 2)))
   \<and> (InterCharacterTimeout options = 25550 \<longrightarrow>
        nearest_100 (InterCharacterTimeout options) = 25600
        \<and> convertOptions options = Inl (errors_New ''Invalid value for InterCharacterTimeout.''))"
proof -
  have a: "convertOptions options = Inl (errors_New ''Invalid value for InterCharacterTimeout.'')"
    if "25550 \<le> InterCharacterTimeout options"
    using that by (simp add: convertOptions_eq)
  have b: "nearest_100 (InterCharacterTimeout options) \<le> 25500
        \<and> unat (c_cc r ! unat kVTIME) * 100 = nearest_100 (InterCharacterTimeout options)"
    if "convertOptions options = Inr r"
  proof -
    from that have t: "InterCharacterTimeout options < 25550"
      by (auto simp: convertOptions_eq split: if_splits)
    from that have "c_cc r ! unat kVTIME
        = of_nat (nearest_100 (InterCharacterTimeout options) div 100)"
      by (auto simp: convertOptions_eq time_slot split: if_splits)
    then have "unat (c_cc r ! unat kVTIME) = nearest_100 (InterCharacterTimeout options) div 100"
      by (simp only: nearest_100_div_byte [OF t])
    moreover have "100 dvd nearest_100 (InterCharacterTimeout options)"
      using nearest_100_nearest by blast
    ultimately show ?thesis using nearest_100_bound [OF t] by simp
  qed
  have c: "\<exists>r. convertOptions options = Inr r \<and> c_cc r ! unat kVTIME = of_nat k"
    if "valid_baud_rate options" "valid_data_bits options" "valid_stop_bits options"
      "valid_parity_mode options" "50 \<le> InterCharacterTimeout options"
      "InterCharacterTimeout options < 25550"
      "nearest_100 (InterCharacterTimeout options) div 100 = k" for k
    using that by (auto simp: convertOptions_eq valid_defs time_slot)
  have d: "nearest_100 149 = 100" "nearest_100 150 = 200" "nearest_100 25550 = 25600"
    by (simp_all add: nearest_100_def)
  show ?thesis
    using nearest_100_nearest [of "InterCharacterTimeout options"] vtime_of_exact [of options]
      a b c [of 1] c [of 2] d
    by (auto simp: nearest_100_large)
qed


theorem convertOptions_vtime_rounding_witness:
  "vtime_of (example_options\<lparr>InterCharacterTimeout := 149\<rparr>) = 100
   \<and> (\<exists>r. convertOptions (example_options\<lparr>InterCharacterTimeout := 149\<rparr>) = Inr r
        \<and> c_cc r ! unat kVTIME = 1 \<and> unat (c_cc r ! unat kVTIME) * 100 = nearest_100 149)
   \<and> (\<exists>r. convertOptions (example_options\<lparr>InterCharacterTimeout := 150\<rparr>) = Inr r
        \<and> c_cc r ! unat kVTIME = 2)
   \<and> nearest_100 25550 = 25600
   \<and> convertOptions (example_options\<lparr>InterCharacterTimeout := 25550\<rparr>)
       = Inl (errors_New ''Invalid value for InterCharacterTimeout.'')"
proof -
  have others: "valid_baud_rate (example_options\<lparr>InterCharacterTimeout := t\<rparr>)
      \<and> valid_data_bits (example_options\<lparr>InterCharacterTimeout := t\<rparr>)
      \<and> valid_stop_bits (example_options\<lparr>InterCharacterTimeout := t\<rparr>)
      \<and> valid_parity_mode (example_options\<lparr>InterCharacterTimeout := t\<rparr>)" for t
    using example_valid by (simp add: valid_defs)
  have n: "nearest_100 149 = 100" by (simp add: nearest_100_def)
  from convertOptions_vtime_rounding [of "example_options\<lparr>InterCharacterTimeout := 149\<rparr>"]
  have "vtime_of (example_options\<lparr>InterCharacterTimeout := 149\<rparr>) = 100"
    by (simp add: n)
  moreover
  from convertOptions_vtime_rounding [of "example_options\<lparr>InterCharacterTimeout := 149\<rparr>"]
  obtain r where r: "convertOptions (example_options\<lparr>InterCharacterTimeout := 149\<rparr>) = Inr r"
    and "c_cc r ! unat kVTIME = 1"
    using others [of 149] by auto
  moreover
  from convertOptions_vtime_rounding [of "example_options\<lparr>InterCharacterTimeout := 149\<rparr>" r] r
  have "unat (c_cc r ! unat kVTIME) * 100 = nearest_100 149"
    by simp
  moreover
  from convertOptions_vtime_rounding [of "example_options\<lparr>InterCharacterTimeout := 150\<rparr>"]
  have "\<exists>r. convertOptions (example_options\<lparr>InterCharacterTimeout := 150\<rparr>) = Inr r
        \<and> c_cc r ! unat kVTIME = 2"
    using others [of 150] by simp
  moreover
  from convertOptions_vtime_rounding [of "example_options\<lparr>InterCharacterTimeout := 25550\<rparr>"]
  have "nearest_100 25550 = 25600
    \<and> convertOptions (example_options\<lparr>InterCharacterTimeout := 25550\<rparr>)
       = Inl (errors_New ''Invalid value for InterCharacterTimeout.'')"
    by simp
  ultimately show ?thesis by blast
qed

section \<open>Baud rate, data bits, stop bits, parity\<close>

text \<open>
  C5. For a \<open>BaudRate\<close> in the fixed set, all other fields valid, the conversion succeeds
  and both speed fields equal the rate. For any other integer the conversion fails, and
  the error is the one for the baud rate whenever the timing check, which runs before it,
  passes.
\<close>

theorem convertOptions_baud_rate:
  "(BaudRate options \<in> {50, 75, 110, 134, 150, 200, 300, 600, 1200, 1800, 2400, 4800, 7200,
       9600, 14400, 19200, 28800, 38400, 57600, 76800, 115200, 230400}
      \<and> valid_timing options \<and> valid_data_bits options \<and> valid_stop_bits options
      \<and> valid_parity_mode options \<longrightarrow>
      (\<exists>r. convertOptions options = Inr r
         \<and> uint (c_ispeed r) = BaudRate options \<and> uint (c_ospeed r) = BaudRate options))
   \<and> (BaudRate options \<notin> {50, 75, 110, 134, 150, 200, 300, 600, 1200, 1800, 2400, 4800, 7200,
       9600, 14400, 19200, 28800, 38400, 57600, 76800, 115200, 230400} \<longrightarrow>
      (\<exists>e. convertOptions options = Inl e)
      \<and> (valid_timing options \<longrightarrow>
           convertOptions options = Inl (errors_New ''Invalid setting for BaudRate.'')))"
  unfolding baud_rates_set [symmetric]
  by (simp add: convertOptions_eq valid_defs uint_baud_rate)

theorem convertOptions_baud_rate_witness:
  "convertOptions example_options = Inr example_termios
   \<and> uint (c_ispeed example_termios) = BaudRate example_options
   \<and> uint (c_ospeed example_termios) = BaudRate example_options
   \<and> convertOptions (example_options\<lparr>BaudRate := 12345\<rparr>)
       = Inl (errors_New ''Invalid setting for BaudRate.'')"
proof -
  have "BaudRate example_options = 9600" by (simp add: example_options_def)
  with convertOptions_baud_rate [of example_options] example_valid
  have "\<exists>r. convertOptions example_options = Inr r
         \<and> uint (c_ispeed r) = BaudRate example_options
         \<and> uint (c_ospeed r) = BaudRate example_options"
    by simp
  moreover have "valid_timing (example_options\<lparr>BaudRate := 12345\<rparr>)"
    using example_valid(1) by (simp add: valid_defs)
  with convertOptions_baud_rate [of "example_options\<lparr>BaudRate := 12345\<rparr>"]
  have "convertOptions (example_options\<lparr>BaudRate := 12345\<rparr>)
       = Inl (errors_New ''Invalid setting for BaudRate.'')"
    by simp
  ultimately show ?thesis using example_converts by auto
qed

text \<open>
  C6. For a \<open>DataBits\<close> outside 5, 6, 7, 8 the conversion fails, with the error for the
  data bits whenever the checks before it (timing, baud rate) pass. For each of the four
  values, other fields valid, the character-size field of the control flags holds the
  pattern of that value and none of the other three.
\<close>

theorem convertOptions_data_bits:
  "(DataBits options \<notin> {5, 6, 7, 8} \<longrightarrow>
      (\<exists>e. convertOptions options = Inl e)
      \<and> (valid_timing options \<and> valid_baud_rate options \<longrightarrow>
           convertOptions options = Inl (errors_New ''Invalid setting for DataBits.'')))
   \<and> (DataBits options \<in> {5, 6, 7, 8} \<and> valid_timing options \<and> valid_baud_rate options
        \<and> valid_stop_bits options \<and> valid_parity_mode options \<longrightarrow>
      (\<exists>r. convertOptions options = Inr r
         \<and> (has_csize kCS5 (c_cflag r) \<longleftrightarrow> DataBits options = 5)
         \<and> (has_csize kCS6 (c_cflag r) \<longleftrightarrow> DataBits options = 6)
         \<and> (has_csize kCS7 (c_cflag r) \<longleftrightarrow> DataBits options = 7)
         \<and> (has_csize kCS8 (c_cflag r) \<longleftrightarrow> DataBits options = 8)))"
  by (auto simp: convertOptions_eq valid_defs has_csize_def csize_field_def flag_defs)

theorem convertOptions_data_bits_witness:
  "convertOptions (example_options\<lparr>DataBits := 9\<rparr>)
       = Inl (errors_New ''Invalid setting for DataBits.'')
   \<and> convertOptions example_options = Inr example_termios
   \<and> \<not> has_csize kCS5 (c_cflag example_termios) \<and> \<not> has_csize kCS6 (c_cflag example_termios)
   \<and> \<not> has_csize kCS7 (c_cflag example_termios) \<and> has_csize kCS8 (c_cflag example_termios)"
proof -
  have "valid_timing (example_options\<lparr>DataBits := 9\<rparr>)"
    and "valid_baud_rate (example_options\<lparr>DataBits := 9\<rparr>)"
    using example_valid by (simp_all add: valid_defs)
  with convertOptions_data_bits [of "example_options\<lparr>DataBits := 9\<rparr>"]
  have "convertOptions (example_options\<lparr>DataBits := 9\<rparr>)
       = Inl (errors_New ''Invalid setting for DataBits.'')"
    by simp
  moreover have "DataBits example_options = 8" by (simp add: example_options_def)
  with convertOptions_data_bits [of example_options] example_valid
  have "\<exists>r. convertOptions example_options = Inr r
         \<and> \<not> has_csize kCS5 (c_cflag r) \<and> \<not> has_csize kCS6 (c_cflag r)
         \<and> \<not> has_csize kCS7 (c_cflag r) \<and> has_csize kCS8 (c_cflag r)"
    by simp
  ultimately show ?thesis using example_converts by auto
qed

text \<open>
  C7. Other fields valid: parity NONE leaves \<open>PARENB\<close> and \<open>PARODD\<close> clear, ODD sets
  both, EVEN sets \<open>PARENB\<close> and leaves \<open>PARODD\<close> clear. Any other parity mode makes the
  conversion fail, with the error for the parity mode whenever the checks before it pass.
\<close>

theorem convertOptions_parity_mode:
  "(ParityMode options \<notin> {PARITY_NONE, PARITY_ODD, PARITY_EVEN} \<longrightarrow>
      (\<exists>e. convertOptions options = Inl e)
      \<and> (valid_timing options \<and> valid_baud_rate options \<and> valid_data_bits options
          \<and> valid_stop_bits options \<longrightarrow>
           convertOptions options = Inl (errors_New ''Invalid setting for ParityMode.'')))
   \<and> (valid_timing options \<and> valid_baud_rate options \<and> valid_data_bits options
        \<and> valid_stop_bits options \<longrightarrow>
      (ParityMode options = PARITY_NONE \<longrightarrow>
         (\<exists>r. convertOptions options = Inr r
            \<and> flag_clear kPARENB (c_cflag r) \<and> flag_clear kPARODD (c_cflag r)))
      \<and> (ParityMode options = PARITY_ODD \<longrightarrow>
         (\<exists>r. convertOptions options = Inr r
            \<and> flag_set kPARENB (c_cflag r) \<and> flag_set kPARODD (c_cflag r)))
      \<and> (ParityMode options = PARITY_EVEN \<longrightarrow>
         (\<exists>r. convertOptions options = Inr r
            \<and> flag_set kPARENB (c_cflag r) \<and> flag_clear kPARODD (c_cflag r))))"
  by (auto simp: convertOptions_eq valid_defs flag_set_def flag_clear_def flag_defs parity_defs)


theorem convertOptions_parity_mode_witness:
  "convertOptions example_options = Inr example_termios
   \<and> flag_clear kPARENB (c_cflag example_termios) \<and> flag_clear kPARODD (c_cflag example_termios)
   \<and> (\<exists>r. convertOptions (example_options\<lparr>ParityMode := PARITY_ODD\<rparr>) = Inr r
          \<and> flag_set kPARENB (c_cflag r) \<and> flag_set kPARODD (c_cflag r))
   \<and> (\<exists>r. convertOptions (example_options\<lparr>ParityMode := PARITY_EVEN\<rparr>) = Inr r
          \<and> flag_set kPARENB (c_cflag r) \<and> flag_clear kPARODD (c_cflag r))
   \<and> convertOptions (example_options\<lparr>ParityMode := 3\<rparr>)
       = Inl (errors_New ''Invalid setting for ParityMode.'')"
proof -
  have others: "valid_timing (example_options\<lparr>ParityMode := p\<rparr>)
      \<and> valid_baud_rate (example_options\<lparr>ParityMode := p\<rparr>)
      \<and> valid_data_bits (example_options\<lparr>ParityMode := p\<rparr>)
      \<and> valid_stop_bits (example_options\<lparr>ParityMode := p\<rparr>)" for p
    using example_valid by (simp add: valid_defs)
  have "ParityMode example_options = PARITY_NONE" by (simp add: example_options_def)
  with convertOptions_parity_mode [of example_options] example_valid
  have "\<exists>r. convertOptions example_options = Inr r
          \<and> flag_clear kPARENB (c_cflag r) \<and> flag_clear kPARODD (c_cflag r)"
    by simp
  moreover from convertOptions_parity_mode [of "example_options\<lparr>ParityMode := PARITY_ODD\<rparr>"]
  have "\<exists>r. convertOptions (example_options\<lparr>ParityMode := PARITY_ODD\<rparr>) = Inr r
          \<and> flag_set kPARENB (c_cflag r) \<and> flag_set kPARODD (c_cflag r)"
    using others [of PARITY_ODD] by simp
  moreover from convertOptions_parity_mode [of "example_options\<lparr>ParityMode := PARITY_EVEN\<rparr>"]
  have "\<exists>r. convertOptions (example_options\<lparr>ParityMode := PARITY_EVEN\<rparr>) = Inr r
          \<and> flag_set kPARENB (c_cflag r) \<and> flag_clear kPARODD (c_cflag r)"
    using others [of PARITY_EVEN] by simp
  moreover from convertOptions_parity_mode [of "example_options\<lparr>ParityMode := 3\<rparr>"]
  have "convertOptions (example_options\<lparr>ParityMode := 3\<rparr>)
       = Inl (errors_New ''Invalid setting for ParityMode.'')"
    using others [of 3] by (simp add: parity_defs)
  ultimately show ?thesis using example_converts by auto
qed

text \<open>
  C8. Other fields valid: \<open>StopBits = 1\<close> leaves \<open>CSTOPB\<close> clear and \<open>StopBits = 2\<close> sets
  it. Any other value makes the conversion fail, with the error for the stop bits whenever
  the checks before it pass.
\<close>

theorem convertOptions_stop_bits:
  "(StopBits options \<notin> {1, 2} \<longrightarrow>
      (\<exists>e. convertOptions options = Inl e)
      \<and> (valid_timing options \<and> valid_baud_rate options \<and> valid_data_bits options \<longrightarrow>
           convertOptions options = Inl (errors_New ''Invalid setting for StopBits.'')))
   \<and> (valid_timing options \<and> valid_baud_rate options \<and> valid_data_bits options
        \<and> valid_parity_mode options \<longrightarrow>
      (StopBits options = 1 \<longrightarrow>
         (\<exists>r. convertOptions options = Inr r \<and> flag_clear kCSTOPB (c_cflag r)))
      \<and> (StopBits options = 2 \<longrightarrow>
         (\<exists>r. convertOptions options = Inr r \<and> flag_set kCSTOPB (c_cflag r))))"
  by (auto simp: convertOptions_eq valid_defs flag_set_def flag_clear_def flag_defs)

theorem convertOptions_stop_bits_witness:
  "convertOptions (example_options\<lparr>StopBits := 3\<rparr>)
       = Inl (errors_New ''Invalid setting for StopBits.'')
   \<and> convertOptions example_options = Inr example_termios
   \<and> flag_clear kCSTOPB (c_cflag example_termios)
   \<and> (\<exists>r. convertOptions (example_options\<lparr>StopBits := 2\<rparr>) = Inr r
          \<and> flag_set kCSTOPB (c_cflag r))"
proof -
  have "valid_timing (example_options\<lparr>StopBits := 3\<rparr>)"
    and "valid_baud_rate (example_options\<lparr>StopBits := 3\<rparr>)"
    and "valid_data_bits (example_options\<lparr>StopBits := 3\<rparr>)"
    using example_valid by (simp_all add: valid_defs)
  with convertOptions_stop_bits [of "example_options\<lparr>StopBits := 3\<rparr>"]
  have "convertOptions (example_options\<lparr>StopBits := 3\<rparr>)
       = Inl (errors_New ''Invalid setting for StopBits.'')"
    by simp
  moreover have "StopBits example_options = 1" by (simp add: example_options_def)
  with convertOptions_stop_bits [of example_options] example_valid
  have "\<exists>r. convertOptions example_options = Inr r \<and> flag_clear kCSTOPB (c_cflag r)"
    by simp
  moreover have "valid_timing (example_options\<lparr>StopBits := 2\<rparr>)"
    and "valid_baud_rate (example_options\<lparr>StopBits := 2\<rparr>)"
    and "valid_data_bits (example_options\<lparr>StopBits := 2\<rparr>)"
    and "valid_parity_mode (example_options\<lparr>StopBits := 2\<rparr>)"
    using example_valid by (simp_all add: valid_defs)
  with convertOptions_stop_bits [of "example_options\<lparr>StopBits := 2\<rparr>"]
  have "\<exists>r. convertOptions (example_options\<lparr>StopBits := 2\<rparr>) = Inr r
          \<and> flag_set kCSTOPB (c_cflag r)"
    by simp
  ultimately show ?thesis using example_converts by auto
qed

section \<open>The baseline control flags\<close>

text \<open>
  C9. Whenever \<open>convertOptions\<close> succeeds, the control-flags word of the structure it
  returns has both \<open>CLOCAL\<close> (ignore modem status lines) and \<open>CREAD\<close> (enable the
  receiver) set, whatever the option values.
\<close>

theorem convertOptions_baseline_flags:
  "convertOptions options = Inr r \<Longrightarrow>
     flag_set kCLOCAL (c_cflag r) \<and> flag_set kCREAD (c_cflag r)"
  by (auto simp: convertOptions_eq flag_set_def flag_defs split: if_splits)

theorem convertOptions_baseline_flags_witness:
  "convertOptions example_options = Inr example_termios
     \<and> flag_set kCLOCAL (c_cflag example_termios) \<and> flag_set kCREAD (c_cflag example_termios)"
  using example_converts convertOptions_baseline_flags [OF example_converts] by simp

section \<open>The fields convertOptions never touches\<close>

text \<open>
  C10. Whenever \<open>convertOptions\<close> succeeds, the input, output and line flag words are
  zero, so no input flag at all (parity checking, byte stripping) is enabled, and every
  slot of the control-character table other than \<open>MIN\<close> and \<open>TIME\<close> is zero.
\<close>

theorem convertOptions_other_fields_zero:
  "convertOptions options = Inr r \<Longrightarrow>
     c_iflag r = 0 \<and> c_oflag r = 0 \<and> c_lflag r = 0
     \<and> (\<forall>flag. flag_clear flag (c_iflag r))
     \<and> length (c_cc r) = kNCCS
     \<and> (\<forall>i < kNCCS. i \<noteq> unat kVMIN \<and> i \<noteq> unat kVTIME \<longrightarrow> c_cc r ! i = 0)"
  by (auto simp: convertOptions_eq flag_clear_def split: if_splits)

theorem convertOptions_other_fields_zero_witness:
  "convertOptions example_options = Inr example_termios
     \<and> c_iflag example_termios = 0 \<and> c_oflag example_termios = 0 \<and> c_lflag example_termios = 0
     \<and> flag_clear kIGNPAR (c_iflag example_termios)
     \<and> length (c_cc example_termios) = kNCCS
     \<and> c_cc example_termios ! 0 = 0 \<and> c_cc example_termios ! 15 = 0
     \<and> c_cc example_termios ! 18 = 0 \<and> c_cc example_termios ! 19 = 0"
proof -
  have slots: "i < kNCCS \<and> i \<noteq> unat kVMIN \<and> i \<noteq> unat kVTIME" if "i \<in> {0, 15, 18, 19}" for i
    using that by (auto simp: kNCCS_def unat_kVMIN unat_kVTIME)
  from convertOptions_other_fields_zero [OF example_converts]
  have "c_iflag example_termios = 0 \<and> c_oflag example_termios = 0 \<and> c_lflag example_termios = 0
     \<and> flag_clear kIGNPAR (c_iflag example_termios)
     \<and> length (c_cc example_termios) = kNCCS"
    and "\<And>i. i < kNCCS \<and> i \<noteq> unat kVMIN \<and> i \<noteq> unat kVTIME \<Longrightarrow> c_cc example_termios ! i = 0"
    by blast+
  moreover note example_converts slots [of 0] slots [of 15] slots [of 18] slots [of 19]
  ultimately show ?thesis by blast
qed

section \<open>The descriptor on a failed open\<close>

text \<open>
  C1, as the spec states it: when a step after the successful open fails, the descriptor
  is closed exactly once before the error is returned. With an \<open>fcntl\<close> that fails,
  \<open>openInternal\<close> returns the error and the descriptor is still open: nothing has closed it.
\<close>

theorem openInternal_fcntl_failure_leaks:
  "openInternal failing_fcntl_os example_options no_descriptors
     = (Inl (SyscallError ''SYS_IOCTL'' 9), \<lparr>open_fds = [3], close_log = []\<rparr>)
   \<and> \<not> closed_exactly_once 3 no_descriptors \<lparr>open_fds = [3], close_log = []\<rparr>"
  by (simp add: openInternal_def os_OpenFile_def os_NewSyscallError_def failing_fcntl_os_def
      working_os_def no_descriptors_def closed_exactly_once_def)

text \<open>
  C1, amended. When the device path has been opened and a later step fails (the \<open>fcntl\<close>
  call, the conversion of the options, or the \<open>ioctl\<close> that applies them),
  \<open>openInternal\<close> returns the error without closing the descriptor: it is still open on
  return and no close has been made on it, so it is never closed twice either.
\<close>

theorem openInternal_failure_keeps_descriptor:
  assumes "sys_open os (PortName options) = Inr file"
    and "openInternal os options tab = (Inl err, tab')"
  shows "open_fds tab' = file # open_fds tab \<and> close_log tab' = close_log tab
    \<and> file \<in> set (open_fds tab')
    \<and> count_list (close_log tab') file = count_list (close_log tab) file"
  using assms
  by (auto simp: openInternal_def os_OpenFile_def Let_def
      split: prod.splits sum.splits option.splits if_splits)

theorem openInternal_failure_keeps_descriptor_witness:
  "sys_open working_os (PortName (example_options\<lparr>BaudRate := 12345\<rparr>)) = Inr 3
   \<and> openInternal working_os (example_options\<lparr>BaudRate := 12345\<rparr>) no_descriptors
       = (Inl (errors_New ''Invalid setting for BaudRate.''), \<lparr>open_fds = [3], close_log = []\<rparr>)
   \<and> open_fds \<lparr>open_fds = [3], close_log = []\<rparr> = 3 # open_fds no_descriptors
   \<and> close_log \<lparr>open_fds = [3], close_log = []\<rparr> = close_log no_descriptors"
proof -
  have opened: "sys_open working_os (PortName (example_options\<lparr>BaudRate := 12345\<rparr>)) = Inr 3"
    by (simp add: working_os_def)
  have "convertOptions (example_options\<lparr>BaudRate := 12345\<rparr>)
      = Inl (errors_New ''Invalid setting for BaudRate.'')"
    by (simp add: convertOptions_eq example_options_def baud_rates_def)
  then have failed: "openInternal working_os (example_options\<lparr>BaudRate := 12345\<rparr>) no_descriptors
       = (Inl (errors_New ''Invalid setting for BaudRate.''), \<lparr>open_fds = [3], close_log = []\<rparr>)"
    by (simp add: openInternal_def os_OpenFile_def os_NewSyscallError_def working_os_def
        no_descriptors_def)
  from openInternal_failure_keeps_descriptor [OF opened failed] opened failed
  show ?thesis by simp
qed

end
